theory Spec2Isabelle
  imports Complex_Main "HOL-Library.Word" "HOL-Library.AList"
begin

section \<open>Python values and errors\<close>

text \<open>
  The es-loader core (\<^verbatim>\<open>siem/__init__.py\<close>) is Python. Its integers are unbounded
  (\<^typ>\<open>int\<close>), its exceptions are values of \<open>py_error\<close> carried in a sum type
  (\<open>Inl\<close> the raised exception), and a Python \<^verbatim>\<open>str\<close> is represented by its UTF-8
  encoding as a \<^typ>\<open>string\<close> (so \<open>length\<close> counts bytes and \<open>py_len\<close> below counts
  characters; a \<^verbatim>\<open>str\<close> holding a lone surrogate has no such representation and is
  outside the model). JSON-like values are the datatype \<open>pyval\<close>; a \<^verbatim>\<open>dict\<close> keeps
  its insertion order, so it is an association list with distinct keys. Floating point
  numbers are not modelled.
\<close>

datatype py_error =
    ZeroDivisionError
  | KeyError
  | IndexError
  | TypeError
  | AttributeError
  | JSONDecodeError
  | SendFailed
  | PlainException

datatype pyval =
    PNone
  | PBool bool
  | PInt int
  | PStr string
  | PList "pyval list"
  | PDict "(string \<times> pyval) list"

type_synonym pydict = "(string \<times> pyval) list"

text \<open>A log record as the reader yields it: \<^verbatim>\<open>(logdata, logmeta)\<close>.\<close>

type_synonym logrec = "pyval \<times> pydict"

text \<open>Sequencing of computations that may raise.\<close>

definition bind_err :: "py_error + 'a \<Rightarrow> ('a \<Rightarrow> py_error + 'b) \<Rightarrow> py_error + 'b" where
  "bind_err m f = (case m of Inl e \<Rightarrow> Inl e | Inr x \<Rightarrow> f x)"

text \<open>\<^verbatim>\<open>d[k]\<close>, \<^verbatim>\<open>d[k] = v\<close> and \<^verbatim>\<open>k in d\<close> on a dict.\<close>

definition dict_get :: "pydict \<Rightarrow> string \<Rightarrow> pyval option" where
  "dict_get d k = map_of d k"

definition dict_set :: "pydict \<Rightarrow> string \<Rightarrow> pyval \<Rightarrow> pydict" where
  "dict_set d k v = AList.update k v d"

definition dict_del :: "pydict \<Rightarrow> string \<Rightarrow> pydict" where
  "dict_del d k = AList.delete k d"

definition dict_has :: "pydict \<Rightarrow> string \<Rightarrow> bool" where
  "dict_has d k = (map_of d k \<noteq> None)"

subsection \<open>Strings\<close>

definition byte :: "char \<Rightarrow> nat" where
  "byte c = of_char c"

text \<open>
  \<^verbatim>\<open>len(s)\<close> counts code points: the bytes of the UTF-8 encoding that are not
  continuation bytes (\<open>0x80..0xBF\<close>).
\<close>

definition is_continuation :: "char \<Rightarrow> bool" where
  "is_continuation c = (128 \<le> byte c \<and> byte c < 192)"

definition py_len :: "string \<Rightarrow> nat" where
  "py_len s = length (filter (\<lambda>c. \<not> is_continuation c) s)"

text \<open>
  \<^verbatim>\<open>str.isspace\<close> holds of U+0009..U+000D, U+001C..U+0020, U+0085, U+00A0, U+1680,
  U+2000..U+200A, U+2028, U+2029, U+202F, U+205F and U+3000. In UTF-8 these are one, two
  or three bytes.
\<close>

definition is_space1 :: "nat \<Rightarrow> bool" where
  "is_space1 a = ((9 \<le> a \<and> a \<le> 13) \<or> (28 \<le> a \<and> a \<le> 32))"

definition is_space2 :: "nat \<Rightarrow> nat \<Rightarrow> bool" where
  "is_space2 a b = (a = 0xC2 \<and> (b = 0x85 \<or> b = 0xA0))"

definition is_space3 :: "nat \<Rightarrow> nat \<Rightarrow> nat \<Rightarrow> bool" where
  "is_space3 a b c =
     ((a = 0xE1 \<and> b = 0x9A \<and> c = 0x80)
      \<or> (a = 0xE2 \<and> b = 0x80 \<and> ((0x80 \<le> c \<and> c \<le> 0x8A) \<or> c = 0xA8 \<or> c = 0xA9 \<or> c = 0xAF))
      \<or> (a = 0xE2 \<and> b = 0x81 \<and> c = 0x9F)
      \<or> (a = 0xE3 \<and> b = 0x80 \<and> c = 0x80))"

text \<open>The number of bytes of the whitespace character a string starts with, 0 if none.\<close>

fun space_len :: "string \<Rightarrow> nat" where
  "space_len [] = 0"
| "space_len [a] = (if is_space1 (byte a) then 1 else 0)"
| "space_len [a, b] =
     (if is_space1 (byte a) then 1 else if is_space2 (byte a) (byte b) then 2 else 0)"
| "space_len (a # b # c # _) =
     (if is_space1 (byte a) then 1
      else if is_space2 (byte a) (byte b) then 2
      else if is_space3 (byte a) (byte b) (byte c) then 3 else 0)"

text \<open>The same, for the whitespace character a string ends with, read on the reversed string.\<close>

fun space_len_rev :: "string \<Rightarrow> nat" where
  "space_len_rev [] = 0"
| "space_len_rev [a] = (if is_space1 (byte a) then 1 else 0)"
| "space_len_rev [a, b] =
     (if is_space1 (byte a) then 1 else if is_space2 (byte b) (byte a) then 2 else 0)"
| "space_len_rev (a # b # c # _) =
     (if is_space1 (byte a) then 1
      else if is_space2 (byte b) (byte a) then 2
      else if is_space3 (byte c) (byte b) (byte a) then 3 else 0)"

function lstrip :: "string \<Rightarrow> string" where
  "lstrip s = (if space_len s = 0 then s else lstrip (drop (space_len s) s))"
  by pat_completeness auto
termination
proof (relation "measure length")
  show "wf (measure length)" by simp
next
  fix s :: string
  assume "space_len s \<noteq> 0"
  then have "s \<noteq> []" by (cases s) simp_all
  then show "(drop (space_len s) s, s) \<in> measure length"
    using \<open>space_len s \<noteq> 0\<close> by (cases s) simp_all
qed

function rstrip_rev :: "string \<Rightarrow> string" where
  "rstrip_rev s = (if space_len_rev s = 0 then s else rstrip_rev (drop (space_len_rev s) s))"
  by pat_completeness auto
termination
proof (relation "measure length")
  show "wf (measure length)" by simp
next
  fix s :: string
  assume "space_len_rev s \<noteq> 0"
  then have "s \<noteq> []" by (cases s) simp_all
  then show "(drop (space_len_rev s) s, s) \<in> measure length"
    using \<open>space_len_rev s \<noteq> 0\<close> by (cases s) simp_all
qed

text \<open>\<^verbatim>\<open>s.rstrip()\<close> and \<^verbatim>\<open>s.strip()\<close>.\<close>

definition rstrip :: "string \<Rightarrow> string" where
  "rstrip s = rev (rstrip_rev (rev s))"

definition strip :: "string \<Rightarrow> string" where
  "strip s = rstrip (lstrip s)"

text \<open>\<^verbatim>\<open>str(n)\<close> for an integer: its decimal digits.\<close>

function show_nat :: "nat \<Rightarrow> string" where
  "show_nat n = (if n < 10 then [char_of (48 + n)] else show_nat (n div 10) @ [char_of (48 + n mod 10)])"
  by pat_completeness auto
termination
  by (relation "measure id") auto

definition show_int :: "int \<Rightarrow> string" where
  "show_int i = (if i < 0 then CHR ''-'' # show_nat (nat (- i)) else show_nat (nat i))"

text \<open>
  \<^verbatim>\<open>str(v)\<close>. For a list or a dict Python prints the \<^verbatim>\<open>repr\<close> of the container,
  which is taken as the parameter \<open>rp\<close>.
\<close>

fun py_str :: "(pyval \<Rightarrow> string) \<Rightarrow> pyval \<Rightarrow> string" where
  "py_str rp (PStr s) = s"
| "py_str rp (PInt i) = show_int i"
| "py_str rp (PBool b) = (if b then ''True'' else ''False'')"
| "py_str rp PNone = ''None''"
| "py_str rp v = rp v"

text \<open>Truth value of a Python value, as \<^verbatim>\<open>if v:\<close> takes it.\<close>

fun py_truthy :: "pyval \<Rightarrow> bool" where
  "py_truthy PNone = False"
| "py_truthy (PBool b) = b"
| "py_truthy (PInt i) = (i \<noteq> 0)"
| "py_truthy (PStr s) = (s \<noteq> [])"
| "py_truthy (PList xs) = (xs \<noteq> [])"
| "py_truthy (PDict d) = (d \<noteq> [])"

text \<open>\<^verbatim>\<open>k in s\<close> for two strings: \<open>k\<close> occurs in \<open>s\<close>.\<close>

fun is_substr :: "string \<Rightarrow> string \<Rightarrow> bool" where
  "is_substr k [] = (k = [])"
| "is_substr k (c # cs) = (take (length k) (c # cs) = k \<or> is_substr k cs)"

text \<open>The characters of a string: each leading byte with the continuation bytes after it.\<close>

function utf8_chars :: "string \<Rightarrow> string list" where
  "utf8_chars [] = []"
| "utf8_chars (c # cs) =
     (c # takeWhile is_continuation cs) # utf8_chars (dropWhile is_continuation cs)"
  by pat_completeness auto
termination
  by (relation "measure length") (simp_all add: less_Suc_eq_le length_dropWhile_le)

text \<open>
  \<^verbatim>\<open>k in v\<close> for a string \<open>k\<close>, \<^verbatim>\<open>v[k]\<close> for a string \<open>k\<close>, \<^verbatim>\<open>v.get(k)\<close> and
  \<^verbatim>\<open>for x in v\<close>, each with the exception Python raises on a value of the wrong type.
\<close>

fun py_in :: "string \<Rightarrow> pyval \<Rightarrow> py_error + bool" where
  "py_in k (PDict d) = Inr (dict_has d k)"
| "py_in k (PList xs) = Inr (PStr k \<in> set xs)"
| "py_in k (PStr s) = Inr (is_substr k s)"
| "py_in k v = Inl TypeError"

fun py_getitem :: "pyval \<Rightarrow> string \<Rightarrow> py_error + pyval" where
  "py_getitem (PDict d) k = (case dict_get d k of None \<Rightarrow> Inl KeyError | Some v \<Rightarrow> Inr v)"
| "py_getitem v k = Inl TypeError"

fun py_get :: "pyval \<Rightarrow> string \<Rightarrow> pyval \<Rightarrow> py_error + pyval" where
  "py_get (PDict d) k dflt = (case dict_get d k of None \<Rightarrow> Inr dflt | Some v \<Rightarrow> Inr v)"
| "py_get v k dflt = Inl AttributeError"

fun py_iter :: "pyval \<Rightarrow> py_error + pyval list" where
  "py_iter (PList xs) = Inr xs"
| "py_iter (PDict d) = Inr (map (\<lambda>kv. PStr (fst kv)) d)"
| "py_iter (PStr s) = Inr (map PStr (utf8_chars s))"
| "py_iter v = Inl TypeError"

text \<open>
  A slice \<^verbatim>\<open>xs[start:end]\<close> with integer bounds: a negative bound counts from the end,
  and both are clipped to the list.
\<close>

definition clip_index :: "nat \<Rightarrow> int \<Rightarrow> nat" where
  "clip_index n i = (if i < 0 then nat (max 0 (int n + i)) else min n (nat i))"

definition py_slice :: "'a list \<Rightarrow> int \<Rightarrow> int \<Rightarrow> 'a list" where
  "py_slice xs start end =
     (let s = clip_index (length xs) start; e = clip_index (length xs) end
      in take (e - s) (drop s xs))"

text \<open>\<^verbatim>\<open>range(q)\<close>: the integers \<open>0, ..., q - 1\<close>, empty when \<open>q \<le> 0\<close>.\<close>

definition py_range :: "int \<Rightarrow> int list" where
  "py_range q = [0..q - 1]"

subsection \<open>\<open>json.dumps\<close>\<close>

text \<open>
  \<^verbatim>\<open>json.dumps\<close> with its defaults: items separated by \<^verbatim>\<open>", "\<close>, keys by \<^verbatim>\<open>": "\<close>,
  and \<^verbatim>\<open>ensure_ascii\<close>, under which every character outside \<^verbatim>\<open>' '..'~'\<close> is written as
  an escape, a character beyond U+FFFF as a surrogate pair. The output is ASCII, so its
  \<^verbatim>\<open>len\<close> is its number of bytes.
\<close>

text \<open>The code point of one UTF-8 encoded character.\<close>

fun codepoint :: "string \<Rightarrow> nat" where
  "codepoint [a] = byte a"
| "codepoint [a, b] = (byte a - 0xC0) * 64 + (byte b - 0x80)"
| "codepoint [a, b, c] = (byte a - 0xE0) * 4096 + (byte b - 0x80) * 64 + (byte c - 0x80)"
| "codepoint [a, b, c, d] =
     (byte a - 0xF0) * 262144 + (byte b - 0x80) * 4096 + (byte c - 0x80) * 64 + (byte d - 0x80)"
| "codepoint _ = 0"

definition hex_digit :: "nat \<Rightarrow> char" where
  "hex_digit n = (if n < 10 then char_of (48 + n) else char_of (87 + n))"

definition hex4 :: "nat \<Rightarrow> string" where
  "hex4 n = [hex_digit (n div 4096 mod 16), hex_digit (n div 256 mod 16),
             hex_digit (n div 16 mod 16), hex_digit (n mod 16)]"

definition json_escape_char :: "string \<Rightarrow> string" where
  "json_escape_char ch =
     (let n = codepoint ch in
      if n = 0x5C then [CHR 0x5C, CHR 0x5C]
      else if n = 0x22 then [CHR 0x5C, CHR 0x22]
      else if 0x20 \<le> n \<and> n \<le> 0x7E then ch
      else if n = 8 then [CHR 0x5C, CHR ''b'']
      else if n = 12 then [CHR 0x5C, CHR ''f'']
      else if n = 10 then [CHR 0x5C, CHR ''n'']
      else if n = 13 then [CHR 0x5C, CHR ''r'']
      else if n = 9 then [CHR 0x5C, CHR ''t'']
      else if n < 0x10000 then CHR 0x5C # CHR ''u'' # hex4 n
      else CHR 0x5C # CHR ''u'' # hex4 (0xD800 + (n - 0x10000) div 1024 mod 1024)
           @ CHR 0x5C # CHR ''u'' # hex4 (0xDC00 + (n - 0x10000) mod 1024))"

definition json_string :: "string \<Rightarrow> string" where
  "json_string s = [CHR 0x22] @ concat (map json_escape_char (utf8_chars s)) @ [CHR 0x22]"

fun join :: "string \<Rightarrow> string list \<Rightarrow> string" where
  "join sep [] = []"
| "join sep [x] = x"
| "join sep (x # y # ys) = x @ sep @ join sep (y # ys)"

fun json_dumps :: "pyval \<Rightarrow> string" where
  "json_dumps PNone = ''null''"
| "json_dumps (PBool b) = (if b then ''true'' else ''false'')"
| "json_dumps (PInt i) = show_int i"
| "json_dumps (PStr s) = json_string s"
| "json_dumps (PList xs) = ''['' @ join '', '' (map json_dumps xs) @ '']''"
| "json_dumps (PDict d) =
     ''{'' @ join '', '' (map (\<lambda>kv. json_string (fst kv) @ '': '' @ json_dumps (snd kv)) d) @ ''}''"

section \<open>LogS3: the format-aware reader\<close>

subsection \<open>\<open>split_logs\<close>\<close>

text \<open>
  \<^verbatim>\<open>divmod\<close> raises on a zero divisor; otherwise it is floor division, which is what
  \<open>div\<close> and \<open>mod\<close> on \<^typ>\<open>int\<close> compute.
\<close>

definition split_logs :: "int \<Rightarrow> int \<Rightarrow> py_error + (int \<times> int) list" where
  "split_logs log_count max_log_count =
     (if max_log_count = 0 then Inl ZeroDivisionError
      else
        let q0 = log_count div max_log_count;
            md = log_count mod max_log_count;
            q = (if md \<noteq> 0 then q0 + 1 else q0)
        in Inr (map (\<lambda>x.
                  let start = (if x = 0 then 1 else x * max_log_count + 1);
                      end0 = (x + 1) * max_log_count;
                      end1 = (if x = q - 1 \<and> md \<noteq> 0 then x * max_log_count + md else end0)
                  in (start, end1))
                (py_range q)))"

text \<open>The record numbers an inclusive 1-based range stands for, and how many they are.\<close>

definition range_members :: "int \<times> int \<Rightarrow> int list" where
  "range_members r = [fst r..snd r]"

definition range_size :: "int \<times> int \<Rightarrow> int" where
  "range_size r = snd r - fst r + 1"

subsection \<open>The reader's state and what it calls outside this file\<close>

text \<open>
  The functions the reader calls in third-party libraries and in modules that are not
  part of this file are parameters: \<^verbatim>\<open>json.loads\<close> (\<open>None\<close> when it raises
  \<^verbatim>\<open>JSONDecodeError\<close>); the values the \<^verbatim>\<open>raw_decode\<close>/\<^verbatim>\<open>WHITESPACE\<close> loop reads from one
  line (\<open>None\<close> when \<^verbatim>\<open>raw_decode\<close> raises); the objects the \<^verbatim>\<open>raw_decode\<close> loop of the
  CloudWatch Logs reader reads from the whole body up to its first \<^verbatim>\<open>JSONDecodeError\<close>;
  the match of the compiled \<^verbatim>\<open>multiline_firstline\<close> pattern; and the two functions of
  \<^verbatim>\<open>siem.winevtxml\<close>.
\<close>

record externals =
  json_loads :: "string \<Rightarrow> pyval option"
  raw_decode_line :: "string \<Rightarrow> pyval list option"
  raw_decode_body :: "string list \<Rightarrow> pyval list"
  match_multiline_firstline :: "string \<Rightarrow> bool"
  winevtxml_count_event :: "string list \<Rightarrow> int"
  winevtxml_extract_event :: "string list \<Rightarrow> int \<Rightarrow> int \<Rightarrow> logrec list"

text \<open>
  A \<^verbatim>\<open>LogS3\<close> object after \<^verbatim>\<open>__init__\<close>. \<open>rawdata\<close> is the decoded text stream, as the
  list of its lines (\<^verbatim>\<open>readlines()\<close>). \<open>start_number\<close> and \<open>end_number\<close> are the two cached
  properties read from \<^verbatim>\<open>record['siem']\<close>, 0 when the job carries no shard range.
  \<open>json_delimiter\<close> is empty when the option is not set. \<open>sqs_queue\<close> is \<open>None\<close> when no
  queue was supplied; a supplied queue is represented by the \<^verbatim>\<open>HTTPStatusCode\<close> with which
  \<^verbatim>\<open>send_messages\<close> answers a batch of entries \<^verbatim>\<open>(Id, MessageBody)\<close>.
\<close>

type_synonym sqs_entry = "string \<times> string"

record logs3 =
  s3bucket :: string
  s3key :: string
  start_number :: int
  end_number :: int
  via_cwl :: bool
  via_firelens :: bool
  file_format :: string
  max_log_count :: int
  text_header_line_number :: int
  json_delimiter :: string
  ignore_container_stderr :: bool
  rawdata :: "string list"
  sqs_queue :: "(sqs_entry list \<Rightarrow> int) option"
  is_ignored :: bool
  ignored_reason :: string
  total_log_count :: int

text \<open>\<^verbatim>\<open>json.loads(v)\<close> on a value: only a string can be parsed.\<close>

definition loads_value :: "externals \<Rightarrow> pyval \<Rightarrow> py_error + pyval" where
  "loads_value ext v =
     (case v of
        PStr s \<Rightarrow> (case json_loads ext s of None \<Rightarrow> Inl JSONDecodeError | Some x \<Rightarrow> Inr x)
      | _ \<Rightarrow> Inl TypeError)"

subsection \<open>JSON objects\<close>

text \<open>
  \<^verbatim>\<open>check_cwe_and_strip_header\<close>: a CloudWatch Events envelope is replaced by its
  \<^verbatim>\<open>detail\<close>, with the provenance in \<open>logmeta\<close> when \<open>need_meta\<close>.
\<close>

definition check_cwe_and_strip_header :: "pyval \<Rightarrow> bool \<Rightarrow> py_error + (pyval \<times> pydict)" where
  "check_cwe_and_strip_header dict_obj need_meta =
     bind_err (py_in ''detail-type'' dict_obj) (\<lambda>a.
     bind_err (if a then py_in ''resources'' dict_obj else Inr False) (\<lambda>b.
       if b then
         bind_err
           (if need_meta then
              bind_err (py_getitem dict_obj ''id'') (\<lambda>v1.
              bind_err (py_getitem dict_obj ''source'') (\<lambda>v2.
              bind_err (py_getitem dict_obj ''account'') (\<lambda>v3.
              bind_err (py_getitem dict_obj ''region'') (\<lambda>v4.
              bind_err (py_getitem dict_obj ''time'') (\<lambda>v5.
                Inr [(''cwe_id'', v1), (''cwe_source'', v2), (''cwe_accountid'', v3),
                     (''cwe_region'', v4), (''cwe_timestamp'', v5)])))))
            else Inr [])
           (\<lambda>logmeta. bind_err (py_getitem dict_obj ''detail'') (\<lambda>detail. Inr (detail, logmeta)))
       else Inr (dict_obj, [])))"

text \<open>
  The records one decoded event contributes, in order: the elements under the delimiter
  key when a delimiter is configured and present, the event itself when no delimiter is
  configured, nothing otherwise.
\<close>

definition json_event_records :: "string \<Rightarrow> bool \<Rightarrow> pyval \<Rightarrow> py_error + logrec list" where
  "json_event_records delimiter need_meta ev =
     bind_err (check_cwe_and_strip_header ev need_meta) (\<lambda>(raw_event, logmeta).
     bind_err (if delimiter \<noteq> [] then py_in delimiter raw_event else Inr False) (\<lambda>has.
       if has then
         bind_err (py_getitem raw_event delimiter) (\<lambda>v.
         bind_err (py_iter v) (\<lambda>records. Inr (map (\<lambda>r. (r, logmeta)) records)))
       else if delimiter = [] then Inr [(raw_event, logmeta)]
       else Inr []))"

text \<open>
  \<^verbatim>\<open>count_logobj_in_json\<close>: the traversal over lines and over the values of each line,
  adding to \<open>count\<close>.
\<close>

fun count_json_events :: "string \<Rightarrow> pyval list \<Rightarrow> int \<Rightarrow> py_error + int" where
  "count_json_events delimiter [] count = Inr count"
| "count_json_events delimiter (ev # evs) count =
     bind_err (json_event_records delimiter False ev) (\<lambda>rs.
       count_json_events delimiter evs (count + int (length rs)))"

fun count_json_lines :: "externals \<Rightarrow> string \<Rightarrow> string list \<Rightarrow> int \<Rightarrow> py_error + int" where
  "count_json_lines ext delimiter [] count = Inr count"
| "count_json_lines ext delimiter (line # rest) count =
     (case raw_decode_line ext line of
        None \<Rightarrow> Inl JSONDecodeError
      | Some evs \<Rightarrow>
          bind_err (count_json_events delimiter evs count) (\<lambda>c.
            count_json_lines ext delimiter rest c))"

definition count_logobj_in_json :: "externals \<Rightarrow> logs3 \<Rightarrow> py_error + int" where
  "count_logobj_in_json ext self = count_json_lines ext (json_delimiter self) (rawdata self) 0"

text \<open>
  \<^verbatim>\<open>extract_logobj_from_json\<close>: the same traversal; each record adds one to \<open>count\<close> and
  is yielded when \<^verbatim>\<open>start <= count <= end\<close>. Each loop returns what it yields and the
  \<open>count\<close> it ends with.
\<close>

fun yield_json_records :: "int \<Rightarrow> int \<Rightarrow> logrec list \<Rightarrow> int \<Rightarrow> logrec list \<times> int" where
  "yield_json_records start end [] count = ([], count)"
| "yield_json_records start end (r # rs) count =
     (let (out, c) = yield_json_records start end rs (count + 1)
      in ((if start \<le> count + 1 \<and> count + 1 \<le> end then [r] else []) @ out, c))"

fun extract_json_events ::
  "string \<Rightarrow> int \<Rightarrow> int \<Rightarrow> pyval list \<Rightarrow> int \<Rightarrow> py_error + (logrec list \<times> int)" where
  "extract_json_events delimiter start end [] count = Inr ([], count)"
| "extract_json_events delimiter start end (ev # evs) count =
     bind_err (json_event_records delimiter True ev) (\<lambda>rs.
       let (out1, c1) = yield_json_records start end rs count in
       bind_err (extract_json_events delimiter start end evs c1) (\<lambda>(out2, c2).
         Inr (out1 @ out2, c2)))"

fun extract_json_lines ::
  "externals \<Rightarrow> string \<Rightarrow> int \<Rightarrow> int \<Rightarrow> string list \<Rightarrow> int \<Rightarrow> py_error + (logrec list \<times> int)" where
  "extract_json_lines ext delimiter start end [] count = Inr ([], count)"
| "extract_json_lines ext delimiter start end (line # rest) count =
     (case raw_decode_line ext line of
        None \<Rightarrow> Inl JSONDecodeError
      | Some evs \<Rightarrow>
          bind_err (extract_json_events delimiter start end evs count) (\<lambda>(out1, c1).
          bind_err (extract_json_lines ext delimiter start end rest c1) (\<lambda>(out2, c2).
            Inr (out1 @ out2, c2))))"

definition extract_logobj_from_json :: "externals \<Rightarrow> logs3 \<Rightarrow> int \<Rightarrow> int \<Rightarrow> py_error + logrec list" where
  "extract_logobj_from_json ext self start end =
     bind_err (extract_json_lines ext (json_delimiter self) start end (rawdata self) 0)
       (\<lambda>(out, c). Inr out)"

subsection \<open>CloudWatch Logs envelopes\<close>

text \<open>
  Whether an object read from the body is a \<^verbatim>\<open>DATA_MESSAGE\<close> envelope:
  \<^verbatim>\<open>isinstance(obj, dict) and 'logEvents' in obj and obj['messageType'] == 'DATA_MESSAGE'\<close>.
\<close>

definition is_data_message :: "pyval \<Rightarrow> py_error + bool" where
  "is_data_message obj =
     (case obj of
        PDict d \<Rightarrow>
          (if dict_has d ''logEvents'' then
             (case dict_get d ''messageType'' of
                None \<Rightarrow> Inl KeyError
              | Some t \<Rightarrow> Inr (t = PStr ''DATA_MESSAGE''))
           else Inr False)
      | _ \<Rightarrow> Inr False)"

text \<open>The decorator \<^verbatim>\<open>deco_cwl_logcount\<close>: one for every log event of every envelope.\<close>

fun cwl_count :: "pyval list \<Rightarrow> int \<Rightarrow> py_error + int" where
  "cwl_count [] line_num = Inr line_num"
| "cwl_count (obj # objs) line_num =
     bind_err (is_data_message obj) (\<lambda>dm.
       if dm then
         bind_err (py_getitem obj ''logEvents'') (\<lambda>evs.
         bind_err (py_iter evs) (\<lambda>logevents.
           cwl_count objs (line_num + int (length logevents))))
       else cwl_count objs line_num)"

text \<open>
  \<^verbatim>\<open>extract_cwl_log\<close>. The one \<open>logmeta\<close> dict of an envelope is updated before each
  yield; a record carries it as it is when the record is yielded.
\<close>

fun cwl_logevents ::
  "externals \<Rightarrow> string \<Rightarrow> int \<Rightarrow> int \<Rightarrow> pyval list \<Rightarrow> pydict \<Rightarrow> int
     \<Rightarrow> py_error + (logrec list \<times> int)" where
  "cwl_logevents ext fmt start end [] logmeta line_num = Inr ([], line_num)"
| "cwl_logevents ext fmt start end (logevent # rest) logmeta line_num =
     (if start \<le> line_num \<and> line_num < end then
        bind_err (py_getitem logevent ''id'') (\<lambda>ev_id.
        bind_err (py_getitem logevent ''timestamp'') (\<lambda>ts.
        bind_err (py_getitem logevent ''message'') (\<lambda>msg.
        bind_err (if fmt = ''json'' then loads_value ext msg else Inr msg) (\<lambda>payload.
          let logmeta1 = dict_set (dict_set logmeta ''cwl_id'' ev_id) ''cwl_timestamp'' ts in
          bind_err (cwl_logevents ext fmt start end rest logmeta1 (line_num + 1)) (\<lambda>(out, n).
            Inr ((payload, logmeta1) # out, n))))))
      else cwl_logevents ext fmt start end rest logmeta (line_num + 1))"

fun cwl_objects ::
  "externals \<Rightarrow> string \<Rightarrow> int \<Rightarrow> int \<Rightarrow> pyval list \<Rightarrow> int \<Rightarrow> py_error + (logrec list \<times> int)" where
  "cwl_objects ext fmt start end [] line_num = Inr ([], line_num)"
| "cwl_objects ext fmt start end (obj # objs) line_num =
     bind_err (is_data_message obj) (\<lambda>dm.
       if dm then
         bind_err (py_getitem obj ''owner'') (\<lambda>owner.
         bind_err (py_getitem obj ''logGroup'') (\<lambda>lg.
         bind_err (py_getitem obj ''logStream'') (\<lambda>ls.
         bind_err (py_getitem obj ''logEvents'') (\<lambda>evs.
         bind_err (py_iter evs) (\<lambda>logevents.
         bind_err (cwl_logevents ext fmt start end logevents
                     [(''cwl_accountid'', owner), (''loggroup'', lg), (''logstream'', ls)] line_num)
           (\<lambda>(out1, n1).
         bind_err (cwl_objects ext fmt start end objs n1) (\<lambda>(out2, n2).
           Inr (out1 @ out2, n2))))))))
       else cwl_objects ext fmt start end objs line_num)"

definition extract_cwl_log :: "externals \<Rightarrow> logs3 \<Rightarrow> int \<Rightarrow> int \<Rightarrow> py_error + logrec list" where
  "extract_cwl_log ext self start end =
     bind_err (cwl_objects ext (file_format self) start end (raw_decode_body ext (rawdata self)) 0)
       (\<lambda>(out, n). Inr out)"

subsection \<open>FireLens envelopes\<close>

text \<open>One pass of the loop of \<^verbatim>\<open>extract_firelens_log\<close>: the record made from one line.\<close>

definition firelens_record :: "externals \<Rightarrow> string \<Rightarrow> bool \<Rightarrow> string \<Rightarrow> py_error + logrec" where
  "firelens_record ext fmt ignore_container_stderr_bool line =
     bind_err (loads_value ext (PStr (strip line))) (\<lambda>obj.
     bind_err (py_get obj ''container_id'' PNone) (\<lambda>container_id.
     bind_err (py_get obj ''container_name'' PNone) (\<lambda>container_name.
     bind_err (py_get obj ''source'' PNone) (\<lambda>container_source.
     bind_err (py_get obj ''ecs_cluster'' PNone) (\<lambda>ecs_cluster.
     bind_err (py_get obj ''ecs_task_arn'' PNone) (\<lambda>ecs_task_arn.
     bind_err (py_get obj ''ecs_task_definition'' PNone) (\<lambda>ecs_task_definition.
     bind_err (py_get obj ''ec2_instance_id'' (PBool False)) (\<lambda>ec2_instance_id.
       let meta0 = [(''container_id'', container_id), (''container_name'', container_name),
                    (''container_source'', container_source), (''ecs_cluster'', ecs_cluster),
                    (''ecs_task_arn'', ecs_task_arn), (''ecs_task_definition'', ecs_task_definition)];
           meta1 = (if py_truthy ec2_instance_id
                    then dict_set meta0 ''ec2_instance_id'' ec2_instance_id else meta0)
       in
       bind_err (py_getitem obj ''log'') (\<lambda>logdata.
         let meta2 =
               (if container_source = PStr ''stderr'' then
                  (if ignore_container_stderr_bool then
                     dict_set (dict_set meta1 ''is_ignored'' (PBool True))
                       ''ignored_reason'' (PStr ''log is container's stderr'')
                   else
                     dict_set (dict_set meta1 ''__skip_normalization'' (PBool True))
                       ''__error_message'' logdata)
                else meta1)
         in
         if fmt = ''json'' then
           (case loads_value ext logdata of
              Inr parsed \<Rightarrow> Inr (parsed, meta2)
            | Inl JSONDecodeError \<Rightarrow>
                (let meta3 = dict_set meta2 ''__skip_normalization'' (PBool True);
                     meta4 = (if dict_has meta3 ''__error_message''
                              then dict_set meta3 ''__error_message''
                                     (PStr ''Invalid file format found during parsing'')
                              else meta3)
                 in Inr (logdata, meta4))
            | Inl e \<Rightarrow> Inl e)
         else Inr (logdata, meta2))))))))))"

fun firelens_lines :: "externals \<Rightarrow> string \<Rightarrow> bool \<Rightarrow> string list \<Rightarrow> py_error + logrec list" where
  "firelens_lines ext fmt ign [] = Inr []"
| "firelens_lines ext fmt ign (line # rest) =
     bind_err (firelens_record ext fmt ign line) (\<lambda>r.
     bind_err (firelens_lines ext fmt ign rest) (\<lambda>rs. Inr (r # rs)))"

definition extract_firelens_log :: "externals \<Rightarrow> logs3 \<Rightarrow> int \<Rightarrow> int \<Rightarrow> py_error + logrec list" where
  "extract_firelens_log ext self start end =
     firelens_lines ext (file_format self) (ignore_container_stderr self)
       (py_slice (rawdata self) start end)"

subsection \<open>\<open>extract_multiline_log\<close> and \<open>count_multiline_log\<close>\<close>

text \<open>
  The decoded object is the list of its lines, each with its line terminator, as iterating
  the text stream gives them. \<open>firstline\<close> is \<^verbatim>\<open>match_multiline_firstline\<close>: whether the
  compiled \<^verbatim>\<open>multiline_firstline\<close> pattern matches at the start of the line.
\<close>

definition count_multiline_log :: "(string \<Rightarrow> bool) \<Rightarrow> string list \<Rightarrow> int" where
  "count_multiline_log firstline lines = int (length (filter firstline lines))"

text \<open>\<^verbatim>\<open>("".join(multilog).rstrip(), metadata)\<close> with the empty \<^verbatim>\<open>metadata\<close> dict.\<close>

definition emit_multilog :: "string list \<Rightarrow> logrec" where
  "emit_multilog multilog = (PStr (rstrip (concat multilog)), [])"

text \<open>
  The loop of \<^verbatim>\<open>extract_multiline_log\<close> over the remaining lines, with its three
  variables \<open>count\<close>, \<open>multilog\<close> and \<open>is_in_scope\<close>; the result lists what is yielded, in
  order, the last element being the yield after the loop.
\<close>

fun multiline_loop ::
  "(string \<Rightarrow> bool) \<Rightarrow> int \<Rightarrow> int \<Rightarrow> string list \<Rightarrow> int \<Rightarrow> string list \<Rightarrow> bool \<Rightarrow> logrec list" where
  "multiline_loop firstline start end [] count multilog is_in_scope =
     (if is_in_scope then [emit_multilog multilog] else [])"
| "multiline_loop firstline start end (line # rest) count multilog is_in_scope =
     (if firstline line then
        (if start < count + 1 \<and> count + 1 \<le> end then
           (if length multilog > 0 then [emit_multilog multilog] else [])
           @ multiline_loop firstline start end rest (count + 1) [line] True
         else multiline_loop firstline start end rest (count + 1) multilog is_in_scope)
      else if is_in_scope then
        multiline_loop firstline start end rest count (multilog @ [line]) is_in_scope
      else multiline_loop firstline start end rest count multilog is_in_scope)"

definition extract_multiline_log ::
  "(string \<Rightarrow> bool) \<Rightarrow> string list \<Rightarrow> int \<Rightarrow> int \<Rightarrow> logrec list" where
  "extract_multiline_log firstline lines start end =
     multiline_loop firstline start end lines 0 [] False"

text \<open>
  What the specification describes, for comparing: the records of the object are the runs
  of lines from one first line up to the next first line or the end; lines before the
  first first line belong to no record. \<open>spec_multiline_records\<close> lists them all, and the
  window \<open>start < n \<le> end\<close> on the 1-based record number \<open>n\<close> selects the requested ones.
\<close>

fun spec_group_lines :: "(string \<Rightarrow> bool) \<Rightarrow> string list \<Rightarrow> string list list \<Rightarrow> string list list" where
  "spec_group_lines firstline [] acc = acc"
| "spec_group_lines firstline (line # rest) acc =
     (if firstline line then spec_group_lines firstline rest (acc @ [[line]])
      else if acc = [] then spec_group_lines firstline rest acc
      else spec_group_lines firstline rest (butlast acc @ [last acc @ [line]]))"

definition spec_multiline_records :: "(string \<Rightarrow> bool) \<Rightarrow> string list \<Rightarrow> string list" where
  "spec_multiline_records firstline lines =
     map (\<lambda>ls. rstrip (concat ls)) (spec_group_lines firstline lines [])"

definition spec_multiline_window ::
  "(string \<Rightarrow> bool) \<Rightarrow> string list \<Rightarrow> int \<Rightarrow> int \<Rightarrow> logrec list" where
  "spec_multiline_window firstline lines start end =
     map (\<lambda>s. (PStr s, [])) (py_slice (spec_multiline_records firstline lines) (max 0 start) (max 0 end))"

subsection \<open>\<open>log_count\<close>, the window and \<open>logdata_generator\<close>\<close>

text \<open>
  The cached property \<^verbatim>\<open>log_count\<close> under its decorator \<^verbatim>\<open>deco_cwl_logcount\<close>. Its
  first evaluation may mark the object ignored, so it returns the object too.
\<close>

definition log_count :: "externals \<Rightarrow> logs3 \<Rightarrow> py_error + (int \<times> logs3)" where
  "log_count ext self =
     (if via_cwl self then
        bind_err (cwl_count (raw_decode_body ext (rawdata self)) 0) (\<lambda>line_num. Inr (line_num, self))
      else if end_number self = 0 then
        bind_err
          (if file_format self = ''text'' \<or> file_format self = ''csv'' \<or> via_firelens self
             then Inr (int (length (rawdata self)))
           else if file_format self = ''json'' then count_logobj_in_json ext self
           else if file_format self = ''winevtxml'' then Inr (winevtxml_count_event ext (rawdata self))
           else if file_format self = ''multiline'' \<or> file_format self = ''xml''
             then Inr (count_multiline_log (match_multiline_firstline ext) (rawdata self))
           else Inr 0)
          (\<lambda>n. if n = 0
                then Inr (n, self\<lparr>is_ignored := True,
                                   ignored_reason := ''there are not any valid logs in S3 object''\<rparr>)
                else Inr (n, self))
      else Inr (end_number self - start_number self, self))"

definition set_start_end_position :: "externals \<Rightarrow> logs3 \<Rightarrow> py_error + ((int \<times> int) \<times> logs3)" where
  "set_start_end_position ext self =
     (let ignore_header_line_number =
            (if via_cwl self then 0
             else if file_format self = ''text'' then text_header_line_number self
             else if file_format self = ''csv'' then 1
             else 0)
      in
      if start_number self \<le> ignore_header_line_number then
        bind_err (log_count ext self) (\<lambda>(n, self1).
          Inr ((ignore_header_line_number,
                if max_log_count self1 \<ge> n then n else max_log_count self1), self1))
      else Inr ((start_number self - 1, end_number self), self))"

definition logdata_generator :: "externals \<Rightarrow> logs3 \<Rightarrow> py_error + (logrec list \<times> logs3)" where
  "logdata_generator ext self =
     bind_err (set_start_end_position ext self) (\<lambda>((start, end), self1).
       let self2 = self1\<lparr>total_log_count := end - start\<rparr> in
       bind_err
         (if via_cwl self2 then extract_cwl_log ext self2 start end
          else if via_firelens self2 then extract_firelens_log ext self2 start end
          else if file_format self2 = ''text'' \<or> file_format self2 = ''csv'' then
            Inr (map (\<lambda>logdata. (PStr (strip logdata), [])) (py_slice (rawdata self2) start end))
          else if file_format self2 = ''json'' then extract_logobj_from_json ext self2 start end
          else if file_format self2 = ''winevtxml'' then
            Inr (winevtxml_extract_event ext (rawdata self2) start end)
          else if file_format self2 = ''multiline'' \<or> file_format self2 = ''xml'' then
            Inr (extract_multiline_log (match_multiline_firstline ext) (rawdata self2) start end)
          else Inl PlainException)
         (\<lambda>recs. Inr (recs, self2)))"

subsection \<open>\<open>send_meta_to_sqs\<close> and \<open>__iter__\<close>\<close>

text \<open>The queue entry of one shard: \<^verbatim>\<open>{'Id': f'num_{start}', 'MessageBody': message_body}\<close>.\<close>

definition queue_entry :: "logs3 \<Rightarrow> int \<times> int \<Rightarrow> sqs_entry" where
  "queue_entry self r =
     (''num_'' @ show_int (fst r),
      json_dumps (PDict
        [(''siem'', PDict [(''start_number'', PInt (fst r)), (''end_number'', PInt (snd r))]),
         (''s3'', PDict [(''bucket'', PDict [(''name'', PStr (s3bucket self))]),
                         (''object'', PDict [(''key'', PStr (s3key self))])])]))"

text \<open>
  The loop of \<^verbatim>\<open>send_meta_to_sqs\<close> from index \<open>i\<close> on, with the \<open>entries\<close> gathered so
  far. It returns the batches it submitted, in order; a batch the queue does not answer
  with 200 raises.
\<close>

fun send_loop ::
  "logs3 \<Rightarrow> (sqs_entry list \<Rightarrow> int) \<Rightarrow> int \<Rightarrow> int \<Rightarrow> (int \<times> int) list \<Rightarrow> sqs_entry list
     \<Rightarrow> py_error + sqs_entry list list" where
  "send_loop self queue last_num i [] entries = Inr []"
| "send_loop self queue last_num i (r # rest) entries =
     (let entries1 = entries @ [queue_entry self r] in
      if int (length entries1) = 10 \<or> i = last_num - 1 then
        (if queue entries1 \<noteq> 200 then Inl SendFailed
         else bind_err (send_loop self queue last_num (i + 1) rest [])
                (\<lambda>batches. Inr (entries1 # batches)))
      else send_loop self queue last_num (i + 1) rest entries1)"

definition send_meta_to_sqs ::
  "logs3 \<Rightarrow> (sqs_entry list \<Rightarrow> int) \<Rightarrow> (int \<times> int) list \<Rightarrow> py_error + (int \<times> sqs_entry list list)" where
  "send_meta_to_sqs self queue metadata =
     (let last_num = int (length metadata) in
      bind_err (send_loop self queue last_num 0 metadata [])
        (\<lambda>batches. Inr (last_num, batches)))"

text \<open>
  \<^verbatim>\<open>__iter__\<close>: the records the iteration yields, the object afterwards and the batches
  it submitted to the queue.
\<close>

definition logs3_iter ::
  "externals \<Rightarrow> logs3 \<Rightarrow> py_error + (logrec list \<times> logs3 \<times> sqs_entry list list)" where
  "logs3_iter ext self =
     (if is_ignored self then Inr ([], self, [])
      else
        bind_err (log_count ext self) (\<lambda>(n, self1).
          if n \<ge> max_log_count self1 \<and> sqs_queue self1 \<noteq> None then
            bind_err (split_logs n (max_log_count self1)) (\<lambda>metadata.
            bind_err (send_meta_to_sqs self1 (the (sqs_queue self1)) metadata)
              (\<lambda>(sent_count, batches).
                Inr ([],
                     self1\<lparr>is_ignored := True,
                            total_log_count := 0,
                            ignored_reason := ''Log file was split into '' @ show_int sent_count
                                              @ '' pieces and sent to SQS.''\<rparr>,
                     batches)))
          else
            bind_err (logdata_generator ext self1) (\<lambda>(recs, self2). Inr (recs, self2, []))))"

section \<open>Exclusion patterns\<close>

text \<open>
  \<^verbatim>\<open>log_patterns\<close> is a nested dict whose leaves are compiled regular expressions. A
  compiled pattern is represented by what \<^verbatim>\<open>pattern.match\<close> decides of a string.
  The function returns \<^verbatim>\<open>True\<close> or falls off its end (\<^verbatim>\<open>None\<close>), which is \<open>False\<close> here.
\<close>

datatype pattern =
    RePattern "string \<Rightarrow> bool"
  | PatDict "(string \<times> pattern) list"

fun match_log_with_exclude_patterns ::
  "(pyval \<Rightarrow> string) \<Rightarrow> pydict \<Rightarrow> (string \<times> pattern) list \<Rightarrow> bool" where
  "match_log_with_exclude_patterns rp log_dict [] = False"
| "match_log_with_exclude_patterns rp log_dict ((key, pat) # rest) =
     (case dict_get log_dict key of
        None \<Rightarrow> match_log_with_exclude_patterns rp log_dict rest
      | Some v \<Rightarrow>
          (case pat of
             PatDict p \<Rightarrow>
               (case v of
                  PDict d \<Rightarrow> match_log_with_exclude_patterns rp d p
                | _ \<Rightarrow> match_log_with_exclude_patterns rp log_dict rest)
           | RePattern re \<Rightarrow>
               (case v of
                  PList _ \<Rightarrow> match_log_with_exclude_patterns rp log_dict rest
                | _ \<Rightarrow> if re (py_str rp v) then True
                       else match_log_with_exclude_patterns rp log_dict rest)))"

text \<open>
  What the specification and the docstring (``if even one matches'') describe, for
  comparing: some leaf pattern, reached through keys the record also has, matches the
  string form of the record's value there; a list in the record never matches.
\<close>

fun spec_exclude_match ::
  "(pyval \<Rightarrow> string) \<Rightarrow> pydict \<Rightarrow> (string \<times> pattern) list \<Rightarrow> bool" where
  "spec_exclude_match rp log_dict [] = False"
| "spec_exclude_match rp log_dict ((key, pat) # rest) =
     ((case dict_get log_dict key of
         None \<Rightarrow> False
       | Some v \<Rightarrow>
           (case pat of
              PatDict p \<Rightarrow> (case v of PDict d \<Rightarrow> spec_exclude_match rp d p | _ \<Rightarrow> False)
            | RePattern re \<Rightarrow> (case v of PList _ \<Rightarrow> False | _ \<Rightarrow> re (py_str rp v))))
      \<or> spec_exclude_match rp log_dict rest)"


section \<open>Sequencing\<close>

lemma bind_err_Inr [simp]: "bind_err (Inr x) f = f x"
  by (simp add: bind_err_def)

lemma bind_err_Inl [simp]: "bind_err (Inl e) f = Inl e"
  by (simp add: bind_err_def)

lemma bind_err_eq_Inr:
  "bind_err m f = Inr y \<longleftrightarrow> (\<exists>x. m = Inr x \<and> f x = Inr y)"
  by (cases m) simp_all

section \<open>Shard partition (\<open>split_logs\<close>)\<close>

lemma py_range_nat: "py_range q = map int [0..<nat q]"
  unfolding py_range_def
  by (rule nth_equalityI) auto

lemma ceil_div:
  fixes lc m :: int
  assumes "1 \<le> m"
  shows "\<lceil>real_of_int lc / real_of_int m\<rceil> = (if lc mod m \<noteq> 0 then lc div m + 1 else lc div m)"
  using assms by (simp add: ceiling_divide_eq_div zdiv_zminus1_eq_if)

lemma split_elt:
  fixes lc m x :: int
  assumes m: "1 \<le> m" and x0: "0 \<le> x"
    and xq: "x \<le> (if lc mod m \<noteq> 0 then lc div m + 1 else lc div m) - 1"
  shows "(if x = (if lc mod m \<noteq> 0 then lc div m + 1 else lc div m) - 1 \<and> lc mod m \<noteq> 0
          then x * m + lc mod m else (x + 1) * m) = min ((x + 1) * m) lc"
proof -
  have lc: "lc div m * m + lc mod m = lc" by simp
  have md: "0 \<le> lc mod m" "lc mod m < m" using m by simp_all
  show ?thesis
  proof (cases "lc mod m \<noteq> 0 \<and> x = lc div m")
    case True
    have "x * m + lc mod m = lc" using True lc by metis
    moreover have "lc \<le> (x + 1) * m" using calculation md by (simp add: distrib_right)
    ultimately show ?thesis using True by (simp add: min_def)
  next
    case False
    have "x + 1 \<le> lc div m" using False xq by (auto split: if_splits)
    then have "(x + 1) * m \<le> lc div m * m" using m by (simp add: mult_right_mono)
    then have "(x + 1) * m \<le> lc" using lc md by linarith
    then show ?thesis using False by (auto simp: min_def)
  qed
qed

lemma split_logs_closed:
  fixes lc m :: int
  assumes "1 \<le> lc" "1 \<le> m"
  shows "split_logs lc m =
    Inr (map (\<lambda>x. (x * m + 1, min ((x + 1) * m) lc))
          (map int [0..<nat \<lceil>real_of_int lc / real_of_int m\<rceil>]))"
proof -
  let ?q = "if lc mod m \<noteq> 0 then lc div m + 1 else lc div m"
  let ?f = "\<lambda>x. let start = (if x = 0 then 1 else x * m + 1);
                      end0 = (x + 1) * m;
                      end1 = (if x = ?q - 1 \<and> lc mod m \<noteq> 0 then x * m + lc mod m else end0)
                  in (start, end1)"
  have elt: "?f x = (x * m + 1, min ((x + 1) * m) lc)" if "x \<in> set (py_range ?q)" for x
  proof -
    have x: "0 \<le> x" "x \<le> ?q - 1" using that unfolding py_range_def by auto
    show ?thesis unfolding Let_def split_elt[OF assms(2) x] by simp
  qed
  have "split_logs lc m = Inr (map ?f (py_range ?q))"
    using assms(2) unfolding split_logs_def Let_def by simp
  also have "map ?f (py_range ?q) = map (\<lambda>x. (x * m + 1, min ((x + 1) * m) lc)) (py_range ?q)"
    by (rule map_cong[OF refl elt])
  finally show ?thesis unfolding py_range_nat ceil_div[OF assms(2)] .
qed

lemma concat_chunks:
  fixes m lc :: int
  assumes "1 \<le> m"
  shows "int n * m - m < lc \<or> n = 0 \<Longrightarrow>
    concat (map (\<lambda>x. [x * m + 1 .. min ((x + 1) * m) lc]) (map int [0..<n])) = [1 .. min (int n * m) lc]"
proof (induction n)
  case 0
  then show ?case by simp
next
  case (Suc n)
  have a: "int n * m - m < lc \<or> n = 0" using Suc.prems assms
    by (auto simp: algebra_simps)
  have b: "int n * m < lc" using Suc.prems by (auto simp: algebra_simps)
  have c: "min (int n * m) lc = int n * m" using b by simp
  have n0: "0 \<le> int n * m" using assms by simp
  have e: "int n * m + 1 \<le> min ((int n + 1) * m) lc" using b assms by (simp add: distrib_right)
  have d: "[1..min ((int n + 1) * m) lc] = [1..int n * m] @ [int n * m + 1 .. min ((int n + 1) * m) lc]"
  proof (cases "int n * m = 0")
    case True
    have "[1..int n * m] = []" unfolding True by simp
    then show ?thesis unfolding True by simp
  next
    case False
    then have "1 \<le> int n * m" using n0 by linarith
    moreover have "int n * m \<le> min ((int n + 1) * m) lc" using e by linarith
    ultimately show ?thesis by (rule upto_split2)
  qed
  show ?case using Suc.IH[OF a] c d by (simp add: algebra_simps)
qed

lemma ceil_bounds:
  fixes lc m :: int
  assumes "1 \<le> lc" "1 \<le> m"
  defines "q \<equiv> \<lceil>real_of_int lc / real_of_int m\<rceil>"
  shows "1 \<le> q" "(q - 1) * m < lc" "lc \<le> q * m"
proof -
  have lc: "lc div m * m + lc mod m = lc" by simp
  have md: "0 \<le> lc mod m" "lc mod m < m" using assms by simp_all
  have q: "q = (if lc mod m \<noteq> 0 then lc div m + 1 else lc div m)"
    unfolding q_def by (rule ceil_div[OF assms(2)])
  have d0: "0 \<le> lc div m" using assms by (simp add: pos_imp_zdiv_nonneg_iff)
  show "1 \<le> q"
  proof (cases "lc mod m = 0")
    case True
    then have "lc div m * m = lc" using lc by simp
    then have "lc div m \<noteq> 0" using assms(1) by auto
    then show ?thesis using d0 q True by simp
  next
    case False then show ?thesis using d0 q by simp
  qed
  show "(q - 1) * m < lc"
  proof (cases "lc mod m = 0")
    case True
    then have "lc div m * m = lc" using lc by simp
    then show ?thesis using q True assms(2) by (simp add: left_diff_distrib)
  next
    case False
    then have "0 < lc mod m" using md by simp
    then have "lc div m * m < lc" using lc by linarith
    then show ?thesis using q False by simp
  qed
  show "lc \<le> q * m"
  proof (cases "lc mod m = 0")
    case True
    then show ?thesis using q lc by simp
  next
    case False
    have "lc \<le> lc div m * m + m" using lc md by linarith
    then show ?thesis using q False by (simp add: distrib_right)
  qed
qed

text \<open>
  Claim C2. For \<open>log_count \<ge> 1\<close> and \<open>max_log_count \<ge> 1\<close>, \<open>split_logs\<close> returns
  exactly \<open>\<lceil>log_count / max_log_count\<rceil>\<close> inclusive 1-based ranges; listing the members of
  the ranges one after the other gives \<open>1, 2, ..., log_count\<close> (so the ranges are contiguous,
  do not overlap and their union is \<open>[1..log_count]\<close>); every range holds between 1 and
  \<open>max_log_count\<close> numbers, every range but the last holds exactly \<open>max_log_count\<close>, each
  range starts right after the previous one ends, the first starts at 1 and the last ends at
  \<open>log_count\<close>.
\<close>

theorem split_logs_partition:
  fixes log_count max_log_count :: int
  assumes "1 \<le> log_count" and "1 \<le> max_log_count"
  shows "\<exists>rs. split_logs log_count max_log_count = Inr rs
    \<and> int (length rs) = \<lceil>real_of_int log_count / real_of_int max_log_count\<rceil>
    \<and> concat (map range_members rs) = [1..log_count]
    \<and> (\<forall>i<length rs. 1 \<le> range_size (rs ! i) \<and> range_size (rs ! i) \<le> max_log_count)
    \<and> (\<forall>i. Suc i < length rs \<longrightarrow>
          range_size (rs ! i) = max_log_count \<and> fst (rs ! Suc i) = snd (rs ! i) + 1)
    \<and> fst (hd rs) = 1 \<and> snd (last rs) = log_count"
proof -
  let ?lc = log_count and ?m = max_log_count
  define q where "q = \<lceil>real_of_int ?lc / real_of_int ?m\<rceil>"
  define n where "n = nat q"
  define rs where "rs = map (\<lambda>x. (x * ?m + 1, min ((x + 1) * ?m) ?lc)) (map int [0..<n])"
  have q: "1 \<le> q" "(q - 1) * ?m < ?lc" "?lc \<le> q * ?m"
    unfolding q_def by (rule ceil_bounds[OF assms])+
  have n: "int n = q" "0 < n" using q(1) by (simp_all add: n_def)
  have len: "length rs = n" by (simp add: rs_def)
  have nth: "rs ! i = (int i * ?m + 1, min ((int i + 1) * ?m) ?lc)" if "i < n" for i
    using that by (simp add: rs_def)
  have below: "int i * ?m < ?lc" if "i < n" for i
  proof -
    have "int i \<le> q - 1" using that n(1) by linarith
    then have "int i * ?m \<le> (q - 1) * ?m" using assms(2) by (simp add: mult_right_mono)
    then show ?thesis using q(2) by linarith
  qed
  have full: "(int i + 1) * ?m < ?lc" if "Suc i < n" for i
    using below[OF that] by (simp add: add.commute)
  have 1: "split_logs ?lc ?m = Inr rs"
    unfolding rs_def n_def q_def by (rule split_logs_closed[OF assms])
  have 2: "int (length rs) = q" using len n(1) by simp
  have "concat (map range_members rs) = [1 .. min (int n * ?m) ?lc]"
    using concat_chunks[OF assms(2), of n ?lc] q(2) n(1)
    by (simp add: rs_def range_members_def comp_def left_diff_distrib)
  then have 3: "concat (map range_members rs) = [1..?lc]" using q(3) n(1) by (simp add: min_def)
  have 4: "1 \<le> range_size (rs ! i) \<and> range_size (rs ! i) \<le> ?m" if "i < length rs" for i
  proof -
    have i: "i < n" using that len by simp
    show ?thesis using below[OF i] assms(2) by (simp add: nth[OF i] range_size_def min_def distrib_right)
  qed
  have 5: "range_size (rs ! i) = ?m \<and> fst (rs ! Suc i) = snd (rs ! i) + 1" if "Suc i < length rs" for i
  proof -
    have i: "Suc i < n" "i < n" using that len by simp_all
    show ?thesis using full[OF i(1)]
      by (simp add: nth[OF i(1)] nth[OF i(2)] range_size_def min_def distrib_right)
  qed
  have ne: "rs \<noteq> []" using len n(2) by auto
  have 6: "fst (hd rs) = 1" using nth[OF n(2)] ne by (simp add: hd_conv_nth)
  have "last rs = rs ! (n - 1)" using ne len by (simp add: last_conv_nth)
  also have "\<dots> = (int (n - 1) * ?m + 1, min ((int (n - 1) + 1) * ?m) ?lc)"
    using n(2) by (intro nth) simp
  finally have "snd (last rs) = min (int n * ?m) ?lc" using n(2) by (simp add: of_nat_diff)
  then have 7: "snd (last rs) = ?lc" using q(3) n(1) by (simp add: min_def)
  show ?thesis using 1 2 3 4 5 6 7 unfolding q_def by blast
qed

text \<open>The scenario of the specification: 25 records, at most 10 per invocation.\<close>

theorem split_logs_partition_witness:
  "(1::int) \<le> 25 \<and> (1::int) \<le> 10 \<and> split_logs 25 10 = Inr [(1, 10), (11, 20), (21, 25)]
   \<and> (\<exists>rs. split_logs 25 10 = Inr rs \<and> int (length rs) = \<lceil>real_of_int 25 / real_of_int 10\<rceil>
         \<and> concat (map range_members rs) = [1..25])"
proof -
  have a: "(1::int) \<le> 25" and b: "(1::int) \<le> 10" by simp_all
  have c: "split_logs 25 10 = Inr [(1, 10), (11, 20), (21, 25)]"
    by code_simp
  show ?thesis using split_logs_partition[OF a b] a b c by blast
qed

section \<open>Multiline record boundaries\<close>

text \<open>
  Claim C4. Each record the multiline extractor emits consists exactly of the lines from
  one first line up to, but excluding, the next first line or the end of the object, and
  no line of a record outside the requested window appears inside an emitted record.
  The code does not do this: on a first line whose number is outside the window it skips
  the line but leaves \<open>is_in_scope\<close> set, so the continuation lines of every later record
  are appended to the last record of the window. For the object of four lines below
  (\<^verbatim>\<open>multiline_firstline = 2024-\<close>) and the window of its first record (shard
  \<^verbatim>\<open>start_number = end_number = 1\<close>, hence \<open>start = 0\<close>, \<open>end = 1\<close>), the code emits the first
  record with the continuation line \<^verbatim>\<open>cont2\<close> of the second record inside it, where the
  boundaries of the claim give the first record alone.
\<close>

theorem extract_multiline_log_absorbs_later_lines:
  "extract_multiline_log (\<lambda>l. take 5 l = ''2024-'')
     [''2024-01-01 A\<newline>'', ''cont\<newline>'', ''2024-01-02 B\<newline>'', ''cont2\<newline>''] 0 1
     = [(PStr ''2024-01-01 A\<newline>cont\<newline>cont2'', [])]
   \<and> spec_multiline_window (\<lambda>l. take 5 l = ''2024-'')
     [''2024-01-01 A\<newline>'', ''cont\<newline>'', ''2024-01-02 B\<newline>'', ''cont2\<newline>''] 0 1
     = [(PStr ''2024-01-01 A\<newline>cont'', [])]"
  by code_simp

section \<open>Exclusion matching\<close>

text \<open>
  Claim C8. The exclusion matcher returns true if and only if some leaf pattern, reached
  through keys the record also has, matches the string form of the record's value, and a
  pattern branch that does not match does not keep its siblings from being checked.
  The code does not do this: when a key holds a dict on both sides it returns the result
  of the nested call at once, so the patterns after that key are never tried. Below, the
  record \<^verbatim>\<open>{'x': {'y': 222}, 'a': 111}\<close> is matched against the patterns
  \<^verbatim>\<open>{'x': {'y': P}, 'a': P}\<close>, \<open>P\<close> matching exactly \<^verbatim>\<open>111\<close>: the leaf under \<^verbatim>\<open>a\<close> matches,
  yet the code answers no; with the same two patterns in the other order it answers yes.
\<close>

theorem match_log_with_exclude_patterns_skips_siblings:
  "match_log_with_exclude_patterns (\<lambda>v. [])
     [(''x'', PDict [(''y'', PInt 222)]), (''a'', PInt 111)]
     [(''x'', PatDict [(''y'', RePattern (\<lambda>s. s = ''111''))]), (''a'', RePattern (\<lambda>s. s = ''111''))]
     = False
   \<and> match_log_with_exclude_patterns (\<lambda>v. [])
     [(''x'', PDict [(''y'', PInt 222)]), (''a'', PInt 111)]
     [(''a'', RePattern (\<lambda>s. s = ''111'')), (''x'', PatDict [(''y'', RePattern (\<lambda>s. s = ''111''))])]
     = True
   \<and> spec_exclude_match (\<lambda>v. [])
     [(''x'', PDict [(''y'', PInt 222)]), (''a'', PInt 111)]
     [(''x'', PatDict [(''y'', RePattern (\<lambda>s. s = ''111''))]), (''a'', RePattern (\<lambda>s. s = ''111''))]
     = True"
  by code_simp

section \<open>The window of a shard job\<close>

text \<open>
  Claim C1. For a shard job, every reader emits exactly the records at the 0-based
  positions \<open>start_number - 1, ..., end_number - 1\<close>. The line readers
  (\<^verbatim>\<open>readlines()[start:end]\<close>), the CloudWatch Logs reader (\<^verbatim>\<open>start <= line_num < end\<close> on
  a 0-based number) and the multiline reader (\<^verbatim>\<open>start < count <= end\<close> on a 1-based
  number) do; the JSON reader tests \<^verbatim>\<open>start <= count <= end\<close> on a 1-based number and so
  begins one record early. Below, an object of three records is read for the shard
  \<^verbatim>\<open>start_number = 2, end_number = 3\<close>: the window is \<open>(1, 3)\<close>; as \<^verbatim>\<open>text\<close> the records at
  positions 1 and 2 are emitted, as \<^verbatim>\<open>json\<close> the record at position 0 is emitted as well.
\<close>

theorem json_reader_window_one_early: \<open>
  (let ext = \<lparr>json_loads = (\<lambda>s. None),
             raw_decode_line = (\<lambda>l.
               if l = ''{"n": 1}\<newline>'' then Some [PDict [(''n'', PInt 1)]]
               else if l = ''{"n": 2}\<newline>'' then Some [PDict [(''n'', PInt 2)]]
               else if l = ''{"n": 3}\<newline>'' then Some [PDict [(''n'', PInt 3)]]
               else None),
             raw_decode_body = (\<lambda>ls. []),
             match_multiline_firstline = (\<lambda>l. False), winevtxml_count_event = (\<lambda>ls. 0),
             winevtxml_extract_event = (\<lambda>ls s e. [])\<rparr>;
       self = \<lparr>s3bucket = ''b'', s3key = ''k'', start_number = 2, end_number = 3, via_cwl = False,
             via_firelens = False, file_format = ''json'', max_log_count = 2,
             text_header_line_number = 0, json_delimiter = [], ignore_container_stderr = False,
             rawdata = [''{"n": 1}\<newline>'', ''{"n": 2}\<newline>'', ''{"n": 3}\<newline>''],
             sqs_queue = None, is_ignored = False, ignored_reason = [], total_log_count = 0\<rparr>
   in map_sum id fst (set_start_end_position ext self) = Inr (1, 3)
      \<and> map_sum id fst (logdata_generator ext self)
          = Inr [(PDict [(''n'', PInt 1)], []), (PDict [(''n'', PInt 2)], []),
                 (PDict [(''n'', PInt 3)], [])]
      \<and> map_sum id fst (logdata_generator ext (self\<lparr>file_format := ''text''\<rparr>))
          = Inr [(PStr ''{"n": 2}'', []), (PStr ''{"n": 3}'', [])])\<close>
  by code_simp

section \<open>The sharding trigger\<close>

lemma log_count_state:
  assumes "log_count ext self = Inr (n, self1)"
  shows "self1 = self \<or> self1 = self\<lparr>is_ignored := True,
            ignored_reason := ''there are not any valid logs in S3 object''\<rparr>"
  using assms unfolding log_count_def
  by (auto simp: bind_err_eq_Inr split: if_splits)

lemma send_loop_ok:
  assumes q: "\<forall>es. queue es = 200"
  shows "length entries < 10 \<Longrightarrow> i + int (length rest) = last_num \<Longrightarrow> (rest = [] \<longrightarrow> entries = []) \<Longrightarrow>
    \<exists>bs. send_loop self queue last_num i rest entries = Inr bs
      \<and> concat bs = entries @ map (queue_entry self) rest
      \<and> (\<forall>b \<in> set bs. 1 \<le> length b \<and> length b \<le> 10)
      \<and> (\<forall>b \<in> set (butlast bs). length b = 10)"
proof (induction rest arbitrary: i entries)
  case Nil
  then show ?case by simp
next
  case (Cons r rest)
  let ?e1 = "entries @ [queue_entry self r]"
  show ?case
  proof (cases "int (length ?e1) = 10 \<or> i = last_num - 1")
    case True
    have "\<exists>bs. send_loop self queue last_num (i + 1) rest [] = Inr bs
      \<and> concat bs = [] @ map (queue_entry self) rest
      \<and> (\<forall>b \<in> set bs. 1 \<le> length b \<and> length b \<le> 10)
      \<and> (\<forall>b \<in> set (butlast bs). length b = 10)"
      using Cons.prems by (intro Cons.IH) auto
    then obtain bs where bs: "send_loop self queue last_num (i + 1) rest [] = Inr bs"
      "concat bs = map (queue_entry self) rest"
      "\<forall>b \<in> set bs. 1 \<le> length b \<and> length b \<le> 10"
      "\<forall>b \<in> set (butlast bs). length b = 10" by auto
    have len: "length ?e1 \<le> 10" using Cons.prems(1) by simp
    have full: "length ?e1 = 10" if bsne: "bs \<noteq> []"
    proof -
      obtain b where b: "b \<in> set bs" using bsne by (cases bs) auto
      then have "b \<noteq> []" using bs(3) by auto
      then have "concat bs \<noteq> []" using b by auto
      then have "rest \<noteq> []" using bs(2) by auto
      then have "i \<noteq> last_num - 1" using Cons.prems(2) by auto
      then show ?thesis using True by auto
    qed
    have "send_loop self queue last_num i (r # rest) entries = Inr (?e1 # bs)"
      using True q bs(1) by (simp add: Let_def)
    moreover have "concat (?e1 # bs) = entries @ map (queue_entry self) (r # rest)"
      using bs(2) by simp
    moreover have "\<forall>b \<in> set (?e1 # bs). 1 \<le> length b \<and> length b \<le> 10"
      using bs(3) len by auto
    moreover have "\<forall>b \<in> set (butlast (?e1 # bs)). length b = 10"
      using bs(4) full by auto
    ultimately show ?thesis by blast
  next
    case False
    then have ne: "rest \<noteq> []" using Cons.prems(2) by auto
    have lt: "length ?e1 < 10" using False Cons.prems(1) by auto
    have "\<exists>bs. send_loop self queue last_num (i + 1) rest ?e1 = Inr bs
      \<and> concat bs = ?e1 @ map (queue_entry self) rest
      \<and> (\<forall>b \<in> set bs. 1 \<le> length b \<and> length b \<le> 10)
      \<and> (\<forall>b \<in> set (butlast bs). length b = 10)"
      using Cons.prems ne lt by (intro Cons.IH) auto
    moreover have "send_loop self queue last_num i (r # rest) entries
        = send_loop self queue last_num (i + 1) rest ?e1"
      using False by (simp add: Let_def)
    ultimately show ?thesis by auto
  qed
qed

lemma send_loop_entry_cong:
  assumes "queue_entry self1 = queue_entry self"
  shows "send_loop self1 queue last_num i rest entries = send_loop self queue last_num i rest entries"
proof (induction rest arbitrary: i entries)
  case Nil
  then show ?case by simp
next
  case (Cons r rest)
  then show ?case using assms by (simp add: Let_def)
qed

text \<open>
  Claim C3, amended. Let the object not be ignored and let its \<open>log_count\<close> be \<open>n\<close>.
  When a work queue is supplied that accepts every batch, and \<open>n > max_log_count \<ge> 1\<close>,
  iterating yields no record, submits one entry per range of \<open>split_logs\<close>, in order, in
  batches of at most 10 entries (every batch but the last holds exactly 10), and leaves
  the object ignored with the reason \<^verbatim>\<open>Log file was split into N pieces and sent to SQS.\<close>,
  \<open>N\<close> the number of ranges. When no queue is supplied, or when \<open>n < max_log_count\<close>,
  iterating yields the windowed records of \<open>logdata_generator\<close> and submits nothing.
\<close>

theorem logs3_iter_sharding:
  assumes "\<not> is_ignored self" and "log_count ext self = Inr (n, self1)"
  shows "(sqs_queue self = Some queue \<and> (\<forall>es. queue es = 200)
            \<and> 1 \<le> max_log_count self \<and> max_log_count self < n \<longrightarrow>
          (\<exists>ranges batches.
              split_logs n (max_log_count self) = Inr ranges
            \<and> logs3_iter ext self =
                Inr ([],
                     self1\<lparr>is_ignored := True, total_log_count := 0,
                            ignored_reason := ''Log file was split into ''
                              @ show_int (int (length ranges)) @ '' pieces and sent to SQS.''\<rparr>,
                     batches)
            \<and> concat batches = map (queue_entry self) ranges
            \<and> (\<forall>b \<in> set batches. 1 \<le> length b \<and> length b \<le> 10)
            \<and> (\<forall>b \<in> set (butlast batches). length b = 10)))
       \<and> (sqs_queue self = None \<or> n < max_log_count self \<longrightarrow>
            logs3_iter ext self =
              bind_err (logdata_generator ext self1) (\<lambda>(recs, self2). Inr (recs, self2, [])))"
proof (intro conjI impI)
  have st: "sqs_queue self1 = sqs_queue self" "max_log_count self1 = max_log_count self"
    "queue_entry self1 = queue_entry self"
    using log_count_state[OF assms(2)] by (auto simp: queue_entry_def fun_eq_iff)
  {
    assume a: "sqs_queue self = Some queue \<and> (\<forall>es. queue es = 200)
            \<and> 1 \<le> max_log_count self \<and> max_log_count self < n"
    then have n1: "1 \<le> n" by linarith
    from a have m0: "max_log_count self \<noteq> 0" by linarith
    obtain ranges where r: "split_logs n (max_log_count self) = Inr ranges"
      using m0 by (auto simp: split_logs_def Let_def)
    have "\<exists>bs. send_loop self queue (int (length ranges)) 0 ranges [] = Inr bs
      \<and> concat bs = [] @ map (queue_entry self) ranges
      \<and> (\<forall>b \<in> set bs. 1 \<le> length b \<and> length b \<le> 10)
      \<and> (\<forall>b \<in> set (butlast bs). length b = 10)"
      using a by (intro send_loop_ok) auto
    then obtain bs where bs: "send_loop self queue (int (length ranges)) 0 ranges [] = Inr bs"
      "concat bs = map (queue_entry self) ranges"
      "\<forall>b \<in> set bs. 1 \<le> length b \<and> length b \<le> 10"
      "\<forall>b \<in> set (butlast bs). length b = 10" by auto
    have sl: "send_loop self1 queue (int (length ranges)) 0 ranges []
        = send_loop self queue (int (length ranges)) 0 ranges []"
      by (rule send_loop_entry_cong[OF st(3)])
    have "logs3_iter ext self =
                Inr ([],
                     self1\<lparr>is_ignored := True, total_log_count := 0,
                            ignored_reason := ''Log file was split into ''
                              @ show_int (int (length ranges)) @ '' pieces and sent to SQS.''\<rparr>,
                     bs)"
      using assms a st r bs(1) sl
      by (simp add: logs3_iter_def send_meta_to_sqs_def Let_def)
    then show "\<exists>ranges batches.
              split_logs n (max_log_count self) = Inr ranges
            \<and> logs3_iter ext self =
                Inr ([],
                     self1\<lparr>is_ignored := True, total_log_count := 0,
                            ignored_reason := ''Log file was split into ''
                              @ show_int (int (length ranges)) @ '' pieces and sent to SQS.''\<rparr>,
                     batches)
            \<and> concat batches = map (queue_entry self) ranges
            \<and> (\<forall>b \<in> set batches. 1 \<le> length b \<and> length b \<le> 10)
            \<and> (\<forall>b \<in> set (butlast batches). length b = 10)"
      using r bs(2,3,4) by blast
  }
  {
    assume "sqs_queue self = None \<or> n < max_log_count self"
    then show "logs3_iter ext self =
              bind_err (logdata_generator ext self1) (\<lambda>(recs, self2). Inr (recs, self2, []))"
      using assms st by (auto simp: logs3_iter_def)
  }
qed

text \<open>
  Claim C3 says that the object is split exactly when \<open>log_count > max_log_count\<close>. The
  split is behind \<^verbatim>\<open>if self.sqs_queue:\<close> as well: below, an object of three lines with
  \<open>max_log_count = 2\<close> and no queue is iterated; nothing is submitted, the object is not
  ignored and the first two records are yielded.
\<close>

theorem logs3_iter_without_queue_never_splits:
  "(let ext = \<lparr>json_loads = (\<lambda>s. None), raw_decode_line = (\<lambda>l. None),
             raw_decode_body = (\<lambda>ls. []),
             match_multiline_firstline = (\<lambda>l. False), winevtxml_count_event = (\<lambda>ls. 0),
             winevtxml_extract_event = (\<lambda>ls s e. [])\<rparr>;
       self = \<lparr>s3bucket = ''b'', s3key = ''k'', start_number = 0, end_number = 0, via_cwl = False,
             via_firelens = False, file_format = ''text'', max_log_count = 2,
             text_header_line_number = 0, json_delimiter = [], ignore_container_stderr = False,
             rawdata = [''a\<newline>'', ''b\<newline>'', ''c\<newline>''], sqs_queue = None,
             is_ignored = False, ignored_reason = [], total_log_count = 0\<rparr>
   in map_sum id fst (log_count ext self) = Inr 3 \<and> max_log_count self = 2
      \<and> map_sum id (\<lambda>(recs, self2, batches). (recs, is_ignored self2, batches)) (logs3_iter ext self)
          = Inr ([(PStr ''a'', []), (PStr ''b'', [])], False, []))"
  by code_simp

text \<open>
  The same object with a queue that accepts everything is split into two pieces; without
  a queue it is read.
\<close>

theorem logs3_iter_sharding_witness:
  "(let ext = \<lparr>json_loads = (\<lambda>s. None), raw_decode_line = (\<lambda>l. None),
             raw_decode_body = (\<lambda>ls. []),
             match_multiline_firstline = (\<lambda>l. False), winevtxml_count_event = (\<lambda>ls. 0),
             winevtxml_extract_event = (\<lambda>ls s e. [])\<rparr>;
       self = \<lparr>s3bucket = ''b'', s3key = ''k'', start_number = 0, end_number = 0, via_cwl = False,
             via_firelens = False, file_format = ''text'', max_log_count = 2,
             text_header_line_number = 0, json_delimiter = [], ignore_container_stderr = False,
             rawdata = [''a\<newline>'', ''b\<newline>'', ''c\<newline>''], sqs_queue = Some (\<lambda>es. 200),
             is_ignored = False, ignored_reason = [], total_log_count = 0\<rparr>;
       self' = self\<lparr>sqs_queue := None\<rparr>
   in \<not> is_ignored self \<and> log_count ext self = Inr (3, self)
      \<and> sqs_queue self = Some (\<lambda>es. 200) \<and> 1 \<le> max_log_count self \<and> max_log_count self < 3
      \<and> (\<exists>ranges batches.
              split_logs 3 (max_log_count self) = Inr ranges
            \<and> logs3_iter ext self =
                Inr ([],
                     self\<lparr>is_ignored := True, total_log_count := 0,
                           ignored_reason := ''Log file was split into ''
                              @ show_int (int (length ranges)) @ '' pieces and sent to SQS.''\<rparr>,
                     batches)
            \<and> concat batches = map (queue_entry self) ranges)
      \<and> \<not> is_ignored self' \<and> log_count ext self' = Inr (3, self') \<and> sqs_queue self' = None
      \<and> logs3_iter ext self' =
            bind_err (logdata_generator ext self') (\<lambda>(recs, self2). Inr (recs, self2, [])))"
proof -
  let ?ext = "\<lparr>json_loads = (\<lambda>s. None), raw_decode_line = (\<lambda>l. None),
             raw_decode_body = (\<lambda>ls. []),
             match_multiline_firstline = (\<lambda>l. False), winevtxml_count_event = (\<lambda>ls. 0),
             winevtxml_extract_event = (\<lambda>ls s e. [])\<rparr>"
  let ?self = "\<lparr>s3bucket = ''b'', s3key = ''k'', start_number = 0, end_number = 0, via_cwl = False,
             via_firelens = False, file_format = ''text'', max_log_count = 2,
             text_header_line_number = 0, json_delimiter = [], ignore_container_stderr = False,
             rawdata = [''a\<newline>'', ''b\<newline>'', ''c\<newline>''], sqs_queue = Some (\<lambda>es. 200),
             is_ignored = False, ignored_reason = [], total_log_count = 0\<rparr>"
  let ?self' = "?self\<lparr>sqs_queue := None\<rparr>"
  have a1: "\<not> is_ignored ?self" by simp
  have a2: "log_count ?ext ?self = Inr (3, ?self)" by (simp add: log_count_def bind_err_def)
  have b1: "\<not> is_ignored ?self'" by simp
  have b2: "log_count ?ext ?self' = Inr (3, ?self')" by (simp add: log_count_def bind_err_def)
  have q: "sqs_queue ?self = Some (\<lambda>es. 200) \<and> (\<forall>es. (\<lambda>es. 200::int) es = 200)
            \<and> 1 \<le> max_log_count ?self \<and> max_log_count ?self < 3" by simp
  have n: "sqs_queue ?self' = None \<or> 3 < max_log_count ?self'" by simp
  from logs3_iter_sharding[OF a1 a2, of "\<lambda>es. 200"] q
  have A: "\<exists>ranges batches.
              split_logs 3 (max_log_count ?self) = Inr ranges
            \<and> logs3_iter ?ext ?self =
                Inr ([],
                     ?self\<lparr>is_ignored := True, total_log_count := 0,
                           ignored_reason := ''Log file was split into ''
                              @ show_int (int (length ranges)) @ '' pieces and sent to SQS.''\<rparr>,
                     batches)
            \<and> concat batches = map (queue_entry ?self) ranges" by blast
  from logs3_iter_sharding[OF b1 b2, of undefined] n
  have B: "logs3_iter ?ext ?self' =
            bind_err (logdata_generator ?ext ?self') (\<lambda>(recs, self2). Inr (recs, self2, []))"
    by blast
  show ?thesis unfolding Let_def using a1 a2 b1 b2 A B by simp
qed

section \<open>FireLens records whose inner log is not JSON\<close>

text \<open>
  Claim C7. For a FireLens record under \<^verbatim>\<open>file_format = json\<close> whose \<^verbatim>\<open>log\<close> is not valid
  JSON, the extractor sets \<^verbatim>\<open>__skip_normalization\<close>, attaches
  \<^verbatim>\<open>__error_message = "Invalid file format found during parsing"\<close> and goes on with
  the next record. The code sets the flag and goes on, but it stores the message only
  when the meta already has an \<^verbatim>\<open>__error_message\<close>, which is the case for a record from
  the container's stderr only. Below, two lines from stdout are read: the first, whose
  \<^verbatim>\<open>log\<close> is \<^verbatim>\<open>plain text\<close>, is yielded with the flag and with no \<^verbatim>\<open>__error_message\<close>; the
  second, whose \<^verbatim>\<open>log\<close> parses, follows it.
\<close>

theorem firelens_invalid_json_has_no_error_message: \<open>
  (let ext = \<lparr>json_loads = (\<lambda>s.
               if s = ''{"source": "stdout", "container_name": "app", "log": "plain text"}''
                 then Some (PDict [(''source'', PStr ''stdout''), (''container_name'', PStr ''app''),
                                   (''log'', PStr ''plain text'')])
               else if s = ''{"source": "stdout", "container_name": "app", "log": "[1]"}''
                 then Some (PDict [(''source'', PStr ''stdout''), (''container_name'', PStr ''app''),
                                   (''log'', PStr ''[1]'')])
               else if s = ''[1]'' then Some (PList [PInt 1])
               else None),
             raw_decode_line = (\<lambda>l. None), raw_decode_body = (\<lambda>ls. []),
             match_multiline_firstline = (\<lambda>l. False), winevtxml_count_event = (\<lambda>ls. 0),
             winevtxml_extract_event = (\<lambda>ls s e. [])\<rparr>;
       self = \<lparr>s3bucket = ''b'', s3key = ''k'', start_number = 0, end_number = 0, via_cwl = False,
             via_firelens = True, file_format = ''json'', max_log_count = 10,
             text_header_line_number = 0, json_delimiter = [], ignore_container_stderr = False,
             rawdata = [''{"source": "stdout", "container_name": "app", "log": "plain text"}\<newline>'',
                        ''{"source": "stdout", "container_name": "app", "log": "[1]"}\<newline>''],
             sqs_queue = None, is_ignored = False, ignored_reason = [], total_log_count = 0\<rparr>
   in map_sum id (map (\<lambda>r. (fst r, dict_get (snd r) ''__skip_normalization'',
                               dict_get (snd r) ''__error_message'')))
        (extract_firelens_log ext self 0 2)
      = Inr [(PStr ''plain text'', Some (PBool True), None),
             (PList [PInt 1], None, None)])\<close>
  by code_simp

section \<open>\<open>log_count\<close> of a shard invocation\<close>




end
